theory Spec2Isabelle
  imports Complex_Main
begin

section \<open>The catalog library (\<^verbatim>\<open>rayopt/library.py\<close>)\<close>

subsection \<open>Rows, tables and the library state\<close>

text \<open>
  The three tables of \<^verbatim>\<open>Library.db_init\<close>. A row keeps the columns that the methods
  of \<^verbatim>\<open>Library\<close> read; the remaining columns (comment, version, sha1, ...) are
  written by the catalog loaders only and read by no method. A nullable column is an
  \<open>option\<close>, \<open>None\<close> being SQL \<^verbatim>\<open>NULL\<close>. A table is the list of its rows in the order in
  which a \<^verbatim>\<open>select\<close> without \<^verbatim>\<open>order by\<close> yields them.
\<close>

record catalog_row =
  cat_id :: int
  cat_name :: string
  cat_format :: string
  cat_size :: "int option"
  cat_file :: "string option"
  cat_date :: "real option"

text \<open>Tables \<^verbatim>\<open>glass\<close> and \<^verbatim>\<open>lens\<close> share the columns that are read.\<close>

record item_row =
  row_id :: int
  row_name :: string
  row_catalog :: int
  row_data :: "string option"

record store =
  tbl_catalog :: "catalog_row list"
  tbl_glass :: "item_row list"
  tbl_lens :: "item_row list"

text \<open>
  The argument \<^verbatim>\<open>typ\<close> is spliced into the SQL text as a table name; the two tables
  with the columns \<^verbatim>\<open>name\<close>, \<^verbatim>\<open>catalog\<close> and \<^verbatim>\<open>data\<close> are \<^verbatim>\<open>glass\<close> and \<^verbatim>\<open>lens\<close>.
\<close>

datatype item_typ = Glass | Lens

fun typ_str :: "item_typ \<Rightarrow> string" where
  "typ_str Glass = ''glass''"
| "typ_str Lens = ''lens''"

fun table :: "item_typ \<Rightarrow> store \<Rightarrow> item_row list" where
  "table Glass s = tbl_glass s"
| "table Lens s = tbl_lens s"

text \<open>
  What a call can raise: the \<^verbatim>\<open>KeyError\<close> of \<^verbatim>\<open>get\<close> and of a dictionary lookup (with
  its message or key), the \<^verbatim>\<open>TypeError\<close> of subscripting \<^verbatim>\<open>None\<close>, the \<^verbatim>\<open>OSError\<close> of
  \<^verbatim>\<open>os.stat\<close>, and whatever a parser or loader of the modules \<^verbatim>\<open>zemax\<close> and \<^verbatim>\<open>oslo\<close>
  raises.
\<close>

datatype error = KeyError string | TypeError | OSError string | External string

text \<open>
  The library object: the database behind \<^verbatim>\<open>self.conn\<close>, the dictionary \<^verbatim>\<open>self.cache\<close>,
  and the lines printed so far.
\<close>

record 'o library =
  db :: store
  cache :: "item_typ \<times> int \<rightharpoonup> 'o"
  stdout :: "string list"

text \<open>
  The functions of the modules \<^verbatim>\<open>zemax\<close> and \<^verbatim>\<open>oslo\<close> that the dictionaries
  \<^verbatim>\<open>Library.loaders\<close> and \<^verbatim>\<open>Library.parsers\<close> refer to are parameters: a loader takes
  the file name and the library and leaves a changed library, possibly raising; a
  parser turns the \<^verbatim>\<open>data\<close> column into an object or raises.
\<close>

type_synonym 'o loader = "string \<Rightarrow> 'o library \<Rightarrow> error option \<times> 'o library"
type_synonym 'o parser = "string option \<Rightarrow> error + 'o"

record 'o modules =
  zmf_to_library :: "'o loader"
  agf_to_library :: "'o loader"
  olc_to_library :: "'o loader"
  glc_to_library :: "'o loader"
  zmx_to_system :: "'o parser"
  agf_to_material :: "'o parser"
  olc_to_system :: "'o parser"
  len_to_system :: "'o parser"
  glc_to_material :: "'o parser"

definition loaders :: "'o modules \<Rightarrow> string \<rightharpoonup> 'o loader" where
  "loaders M = [''.zmf'' \<mapsto> zmf_to_library M, ''.agf'' \<mapsto> agf_to_library M,
                ''.dir'' \<mapsto> olc_to_library M, ''.glc'' \<mapsto> glc_to_library M]"

definition parsers :: "'o modules \<Rightarrow> string \<rightharpoonup> 'o parser" where
  "parsers M = [''zmx'' \<mapsto> zmx_to_system M, ''agf'' \<mapsto> agf_to_material M,
                ''olc'' \<mapsto> olc_to_system M, ''len'' \<mapsto> len_to_system M,
                ''glc'' \<mapsto> glc_to_material M]"

subsection \<open>Strings and paths\<close>

text \<open>
  \<^verbatim>\<open>str.lower\<close> on the letters A to Z; no other character of an 8-bit string lowers
  to a character of a loader key.
\<close>

definition lower_char :: "char \<Rightarrow> char" where
  "lower_char c = (let n = (of_char c :: nat) in
     if 65 \<le> n \<and> n \<le> 90 then char_of (n + 32) else c)"

definition lower :: "string \<Rightarrow> string" where
  "lower s = map lower_char s"

text \<open>
  The collation \<^verbatim>\<open>nocase\<close> of the \<^verbatim>\<open>name\<close> columns: equality after folding A to Z.
\<close>

definition nocase_eq :: "string \<Rightarrow> string \<Rightarrow> bool" where
  "nocase_eq a b = (lower a = lower b)"

text \<open>
  \<^verbatim>\<open>os.path.split(fil)[1]\<close> of \<^verbatim>\<open>posixpath\<close>: what follows the last slash.
\<close>

fun basename :: "string \<Rightarrow> string" where
  "basename [] = []"
| "basename (c # cs) = (if CHR ''/'' \<in> set cs then basename cs
     else if c = CHR ''/'' then cs else c # cs)"

text \<open>
  \<^verbatim>\<open>os.path.splitext(base)[1]\<close> for a name without a slash: from the last dot on,
  provided a character other than a dot precedes that dot; otherwise empty.
\<close>

definition splitext_ext :: "string \<Rightarrow> string" where
  "splitext_ext base =
     (let after = rev (takeWhile (\<lambda>c. c \<noteq> CHR ''.'') (rev base));
          stem = take (length base - length after - 1) base
      in if CHR ''.'' \<in> set base \<and> (\<exists>c \<in> set stem. c \<noteq> CHR ''.'')
         then CHR ''.'' # after else [])"

subsection \<open>The file system\<close>

record stat =
  st_mtime :: real
  st_size :: int

type_synonym filesystem = "string \<rightharpoonup> stat"

subsection \<open>\<^verbatim>\<open>Library.delete_catalog\<close>\<close>

definition delete_catalog :: "int \<Rightarrow> 'o library \<Rightarrow> 'o library" where
  "delete_catalog i L = L\<lparr>db :=
     \<lparr>tbl_catalog = filter (\<lambda>c. cat_id c \<noteq> i) (tbl_catalog (db L)),
      tbl_glass = filter (\<lambda>r. row_catalog r \<noteq> i) (tbl_glass (db L)),
      tbl_lens = filter (\<lambda>r. row_catalog r \<noteq> i) (tbl_lens (db L))\<rparr>\<rparr>"

subsection \<open>\<^verbatim>\<open>Library.load\<close>\<close>

text \<open>\<^verbatim>\<open>fetchone()\<close>: the first row of a result, \<^verbatim>\<open>None\<close> when there is none.\<close>

fun fetchone :: "'a list \<Rightarrow> 'a option" where
  "fetchone [] = None"
| "fetchone (r # rs) = Some r"

text \<open>\<^verbatim>\<open>select id, date, size from catalog where file = ?\<close>\<close>

definition select_catalog_by_file :: "store \<Rightarrow> string \<Rightarrow> catalog_row list" where
  "select_catalog_by_file s fil = filter (\<lambda>c. cat_file c = Some fil) (tbl_catalog s)"

text \<open>
  The test \<^verbatim>\<open>stat.st_mtime <= res[1] or stat.st_size == res[2]\<close>. The module is
  Python 2 (it names \<^verbatim>\<open>unicode\<close>), where \<^verbatim>\<open>None\<close> orders below every number and
  equals none.
\<close>

definition unchanged :: "stat \<Rightarrow> catalog_row \<Rightarrow> bool" where
  "unchanged st res =
     ((case cat_date res of None \<Rightarrow> False | Some d \<Rightarrow> st_mtime st \<le> d)
      \<or> (case cat_size res of None \<Rightarrow> False | Some z \<Rightarrow> st_size st = z))"

text \<open>The last two statements of \<^verbatim>\<open>load\<close>: print, then call the loader.\<close>

definition run_loader :: "'o loader \<Rightarrow> string \<Rightarrow> 'o library \<Rightarrow> error option \<times> 'o library" where
  "run_loader ld fil L = ld fil (L\<lparr>stdout := stdout L @ [''loading '' @ fil]\<rparr>)"

definition load :: "'o modules \<Rightarrow> filesystem \<Rightarrow> string \<Rightarrow> string \<Rightarrow> 'o library
    \<Rightarrow> error option \<times> 'o library" where
  "load M fs fil mode L =
     (let extl = lower (splitext_ext (basename fil)) in
      case loaders M extl of
        None \<Rightarrow> (None, L)
      | Some ld \<Rightarrow>
         (case fetchone (select_catalog_by_file (db L) fil) of
            None \<Rightarrow> run_loader ld fil L
          | Some res \<Rightarrow>
              if mode = ''refresh'' then
                (case fs fil of
                   None \<Rightarrow> (Some (OSError fil), L)
                 | Some st \<Rightarrow>
                     if unchanged st res then (None, L)
                     else run_loader ld fil (delete_catalog (cat_id res) L))
              else if mode = ''reload'' then
                run_loader ld fil (delete_catalog (cat_id res) L)
              else run_loader ld fil L))"

subsection \<open>\<^verbatim>\<open>Library.parse\<close> and \<^verbatim>\<open>Library.get\<close>\<close>

text \<open>
  \<^verbatim>\<open>select data, format from {0}, catalog where {0}.id = ? and {0}.catalog = catalog.id\<close>
\<close>

definition select_data_format :: "store \<Rightarrow> item_typ \<Rightarrow> int \<Rightarrow> (string option \<times> string) list" where
  "select_data_format s t i =
     concat (map (\<lambda>r. map (\<lambda>c. (row_data r, cat_format c))
                    (filter (\<lambda>c. row_catalog r = cat_id c) (tbl_catalog s)))
             (filter (\<lambda>r. row_id r = i) (table t s)))"

definition parse :: "'o modules \<Rightarrow> item_typ \<Rightarrow> int \<Rightarrow> bool \<Rightarrow> 'o library \<Rightarrow> (error + 'o) \<times> 'o library" where
  "parse M t i reload L =
     (case (if reload then None else cache L (t, i)) of
        Some obj \<Rightarrow> (Inr obj, L)
      | None \<Rightarrow>
         (case fetchone (select_data_format (db L) t i) of
            None \<Rightarrow> (Inl TypeError, L)
          | Some (data, fmt) \<Rightarrow>
             (case parsers M fmt of
                None \<Rightarrow> (Inl (KeyError fmt), L)
              | Some p \<Rightarrow>
                 (case p data of
                    Inl e \<Rightarrow> (Inl e, L)
                  | Inr obj \<Rightarrow> (Inr obj, L\<lparr>cache := (cache L)((t, i) \<mapsto> obj)\<rparr>)))))"

text \<open>
  The two queries of \<^verbatim>\<open>get\<close>: \<^verbatim>\<open>select id from {0} where name = ?\<close> and
  \<^verbatim>\<open>select {0}.id from {0}, catalog where {0}.catalog = catalog.id and {0}.name = ?
  and catalog.name = ?\<close>; both \<^verbatim>\<open>name\<close> columns collate \<^verbatim>\<open>nocase\<close>.
\<close>

definition select_id :: "store \<Rightarrow> item_typ \<Rightarrow> string \<Rightarrow> string option \<Rightarrow> int list" where
  "select_id s t name catalog =
     (case catalog of
        None \<Rightarrow> map row_id (filter (\<lambda>r. nocase_eq (row_name r) name) (table t s))
      | Some cat \<Rightarrow>
          concat (map (\<lambda>r. map (\<lambda>c. row_id r)
                         (filter (\<lambda>c. row_catalog r = cat_id c \<and> nocase_eq (cat_name c) cat)
                            (tbl_catalog s)))
                  (filter (\<lambda>r. nocase_eq (row_name r) name) (table t s))))"

text \<open>The message \<^verbatim>\<open>"{} {}/{} not found".format(typ, catalog, name)\<close>.\<close>

definition not_found :: "item_typ \<Rightarrow> string option \<Rightarrow> string \<Rightarrow> error" where
  "not_found t catalog name = KeyError (typ_str t @ '' ''
     @ (case catalog of None \<Rightarrow> ''None'' | Some cat \<Rightarrow> cat) @ ''/'' @ name @ '' not found'')"

definition get :: "'o modules \<Rightarrow> item_typ \<Rightarrow> string \<Rightarrow> string option \<Rightarrow> bool \<Rightarrow> 'o library
    \<Rightarrow> (error + 'o) \<times> 'o library" where
  "get M t name catalog reload L =
     (case fetchone (select_id (db L) t name catalog) of
        None \<Rightarrow> (Inl (not_found t catalog name), L)
      | Some i \<Rightarrow> parse M t i reload L)"

subsection \<open>A history of later calls\<close>

text \<open>
  A caller's later calls of \<^verbatim>\<open>parse\<close> and \<^verbatim>\<open>get\<close> with \<^verbatim>\<open>reload\<close> left at its
  default \<^verbatim>\<open>False\<close>. Before each call the database may have changed in any way: the
  history gives, with each call, the tables as they are when the call is made.
  \<open>later_calls\<close> is the list of what the calls return or raise.
\<close>

datatype call = Parse item_typ int | Get item_typ string "string option"

fun do_call :: "'o modules \<Rightarrow> call \<Rightarrow> 'o library \<Rightarrow> (error + 'o) \<times> 'o library" where
  "do_call M (Parse t i) L = parse M t i False L"
| "do_call M (Get t name catalog) L = get M t name catalog False L"

fun later_calls :: "'o modules \<Rightarrow> (store \<times> call) list \<Rightarrow> 'o library \<Rightarrow> (error + 'o) list" where
  "later_calls M [] L = []"
| "later_calls M ((s, c) # cs) L =
     (case do_call M c (L\<lparr>db := s\<rparr>) of (r, L') \<Rightarrow> r # later_calls M cs L')"

text \<open>
  A call is about the pair \<open>(t, i)\<close> when it is \<^verbatim>\<open>parse(t, i)\<close>, or a \<^verbatim>\<open>get\<close> on
  table \<open>t\<close> whose query finds the id \<open>i\<close> first.
\<close>

fun resolves :: "store \<times> call \<Rightarrow> item_typ \<Rightarrow> int \<Rightarrow> bool" where
  "resolves (s, Parse t' i') t i = (t' = t \<and> i' = i)"
| "resolves (s, Get t' name catalog) t i =
     (t' = t \<and> fetchone (select_id s t' name catalog) = Some i)"

subsection \<open>An example library\<close>

text \<open>
  Stand-ins for the loaders and parsers: a loader appends a catalog row for the file,
  a parser tags the data with its format and raises on \<^verbatim>\<open>NULL\<close> data. The example
  library holds one catalog, loaded from \<^verbatim>\<open>catalog/schott.agf\<close> when that file had
  10 bytes and modification time 100, with one glass; on disk the file now has
  modification time 200 and still 10 bytes. In the second store the glass row and the
  format of its catalog have changed.
\<close>

definition demo_loader :: "string \<Rightarrow> string loader" where
  "demo_loader fmt fil L =
     (None, L\<lparr>db := (db L)\<lparr>tbl_catalog := tbl_catalog (db L) @
        [\<lparr>cat_id = 1 + foldr max (map cat_id (tbl_catalog (db L))) 0, cat_name = fil,
          cat_format = fmt, cat_size = None, cat_file = Some fil, cat_date = None\<rparr>]\<rparr>\<rparr>)"

definition demo_parser :: "string \<Rightarrow> string parser" where
  "demo_parser fmt data = (case data of None \<Rightarrow> Inl (External fmt) | Some d \<Rightarrow> Inr (fmt @ '':'' @ d))"

definition demo_modules :: "string modules" where
  "demo_modules = \<lparr>zmf_to_library = demo_loader ''zmx'', agf_to_library = demo_loader ''agf'',
     olc_to_library = demo_loader ''olc'', glc_to_library = demo_loader ''glc'',
     zmx_to_system = demo_parser ''zmx'', agf_to_material = demo_parser ''agf'',
     olc_to_system = demo_parser ''olc'', len_to_system = demo_parser ''len'',
     glc_to_material = demo_parser ''glc''\<rparr>"

definition demo_library :: "string library" where
  "demo_library = \<lparr>db = \<lparr>tbl_catalog =
        [\<lparr>cat_id = 1, cat_name = ''schott'', cat_format = ''agf'', cat_size = Some 10,
          cat_file = Some ''catalog/schott.agf'', cat_date = Some 100\<rparr>],
      tbl_glass = [\<lparr>row_id = 7, row_name = ''BK7'', row_catalog = 1, row_data = Some ''NM BK7''\<rparr>],
      tbl_lens = []\<rparr>,
     cache = Map.empty, stdout = []\<rparr>"

definition demo_fs :: filesystem where
  "demo_fs = [''catalog/schott.agf'' \<mapsto> \<lparr>st_mtime = 200, st_size = 10\<rparr>]"

definition demo_store2 :: store where
  "demo_store2 = \<lparr>tbl_catalog =
        [\<lparr>cat_id = 1, cat_name = ''schott'', cat_format = ''glc'', cat_size = Some 10,
          cat_file = Some ''catalog/schott.agf'', cat_date = Some 100\<rparr>],
      tbl_glass = [\<lparr>row_id = 7, row_name = ''BK7'', row_catalog = 1, row_data = Some ''changed''\<rparr>],
      tbl_lens = []\<rparr>"

section \<open>The surface model\<close>

text \<open>
  The class \<^verbatim>\<open>Spheroid\<close>, the material classes and the object \<^verbatim>\<open>mirror\<close> that
  \<^verbatim>\<open>tests/test_elements.py\<close> imports from \<^verbatim>\<open>rayopt\<close> are not among the sources. What
  follows is modelled from the specification, over the real numbers (the code
  computes in floating point, where the equalities below hold up to rounding).
\<close>

subsection \<open>Vectors and matrices\<close>

type_synonym vec3 = "real \<times> real \<times> real"

text \<open>A matrix is the triple of its rows.\<close>

type_synonym mat3 = "vec3 \<times> vec3 \<times> vec3"



fun scale :: "real \<Rightarrow> vec3 \<Rightarrow> vec3" where
  "scale k (x, y, z) = (k * x, k * y, k * z)"

fun dot :: "vec3 \<Rightarrow> vec3 \<Rightarrow> real" where
  "dot (a, b, c) (x, y, z) = a * x + b * y + c * z"

fun mv :: "mat3 \<Rightarrow> vec3 \<Rightarrow> vec3" where
  "mv (r1, r2, r3) x = (dot r1 x, dot r2 x, dot r3 x)"

fun transpose3 :: "mat3 \<Rightarrow> mat3" where
  "transpose3 ((a, b, c), (d, e, f), (g, h, i)) = ((a, d, g), (b, e, h), (c, f, i))"

fun mm :: "mat3 \<Rightarrow> mat3 \<Rightarrow> mat3" where
  "mm (r1, r2, r3) B =
     (mv (transpose3 B) r1, mv (transpose3 B) r2, mv (transpose3 B) r3)"

definition identity3 :: mat3 where
  "identity3 = ((1, 0, 0), (0, 1, 0), (0, 0, 1))"

subsection \<open>Materials and surfaces\<close>

text \<open>
  Modelled from the spec: the materials (class \<^verbatim>\<open>ModelMaterial\<close> and the object
  \<^verbatim>\<open>mirror\<close>), as the tagged variant of Sections 3 and 9. A dielectric has the index
  \<^verbatim>\<open>nd\<close>, \<open>None\<close> when unset, and the Abbe number \<^verbatim>\<open>vd\<close>, \<open>None\<close> when infinite.
\<close>

datatype material = Dielectric "real option" "real option" | Mirror

text \<open>
  Modelled from the spec: the attributes of a surface (class \<^verbatim>\<open>Spheroid\<close>), Section 3.
  There is no field for the offset.
\<close>

record surface =
  curvature :: real
  distance :: real
  direction :: vec3
  angles :: "(real \<times> real \<times> real) option"
  radius :: "real option"
  angular_radius :: "real option"
  material :: material


subsection \<open>Frame transforms\<close>

text \<open>
  Modelled from the spec: the elemental rotations of Section 4.1 (the code that builds
  the rotation of a surface is missing). The rotation about the first axis by \<open>a\<close>
  takes \<open>(0, 0, 3)\<close> to \<open>(0, 3 sin a, 3 cos a)\<close>, the scenario of Section 8; the
  specification leaves the sense of the other two open, and they are given the same
  sense here.
\<close>

definition rot_x :: "real \<Rightarrow> mat3" where
  "rot_x a = ((1, 0, 0), (0, cos a, sin a), (0, - sin a, cos a))"

definition rot_y :: "real \<Rightarrow> mat3" where
  "rot_y b = ((cos b, 0, - sin b), (0, 1, 0), (sin b, 0, cos b))"

definition rot_z :: "real \<Rightarrow> mat3" where
  "rot_z c = ((cos c, sin c, 0), (- sin c, cos c, 0), (0, 0, 1))"


text \<open>
  Modelled from the spec: the tilt of a surface (missing from the sources), Section 4.1:
  no tilt when \<^verbatim>\<open>angles\<close> is absent, otherwise the three elemental rotations about the
  first, then the second, then the third axis.
\<close>

definition tilt :: "surface \<Rightarrow> mat3" where
  "tilt s = (case angles s of None \<Rightarrow> identity3
     | Some (a, b, c) \<Rightarrow> mm (rot_x a) (mm (rot_y b) (rot_z c)))"

text \<open>
  Modelled from the spec: the realignment of the axis (missing from the sources),
  Section 4.1: the identity for the default axis, otherwise "whatever maps the default
  axis onto direction". The specification gives no formula for that choice; it is the
  parameter \<open>A\<close>.
\<close>

definition realign :: "(vec3 \<Rightarrow> mat3) \<Rightarrow> vec3 \<Rightarrow> mat3" where
  "realign A d = (if d = (0, 0, 1) then identity3 else A d)"

text \<open>
  Modelled from the spec: the rotation of a surface (missing from the sources),
  Section 4.1: the tilt on top of the realignment.
\<close>

definition rotation :: "(vec3 \<Rightarrow> mat3) \<Rightarrow> surface \<Rightarrow> mat3" where
  "rotation A s = mm (realign A (direction s)) (tilt s)"




definition from_normal :: "(vec3 \<Rightarrow> mat3) \<Rightarrow> surface \<Rightarrow> vec3 \<Rightarrow> vec3" where
  "from_normal A s x = mv (rotation A s) x"

subsection \<open>An example realignment and the surface of the tests\<close>

text \<open>
  One rotation that takes the default axis onto a unit direction \<open>d\<close>, as an example of
  the parameter \<open>A\<close>: the turn about the axis perpendicular to both, by the angle between
  them; for the direction opposite to the default axis, the half turn about the first
  axis.
\<close>

definition shortest_turn :: "vec3 \<Rightarrow> mat3" where
  "shortest_turn d = (case d of (p, q, r) \<Rightarrow>
     if r = - 1 then ((1, 0, 0), (0, - 1, 0), (0, 0, - 1))
     else ((1 - p * p / (1 + r), - (p * q) / (1 + r), p),
           (- (p * q) / (1 + r), 1 - q * q / (1 + r), q),
           (- p, - q, r)))"


section \<open>Properties of the catalog library\<close>

subsection \<open>Queries\<close>

lemma lower_strs:
  "lower ''BK7'' = ''bk7''" "lower ''bk7'' = ''bk7''" "lower ''F2'' = ''f2''"
  "lower ''schott'' = ''schott''" "lower ''Schott'' = ''schott''"
  "lower ''.agf'' = ''.agf''" "lower ''.txt'' = ''.txt''"
  by code_simp+

lemma select_id_empty:
  "(select_id s t name catalog = []) \<longleftrightarrow>
     \<not> (\<exists>r \<in> set (table t s). nocase_eq (row_name r) name \<and>
          (case catalog of None \<Rightarrow> True
           | Some cat \<Rightarrow> \<exists>c \<in> set (tbl_catalog s). row_catalog r = cat_id c \<and> nocase_eq (cat_name c) cat))"
  by (cases catalog) (auto simp: select_id_def filter_empty_conv)

lemma fetchone_None: "fetchone xs = None \<longleftrightarrow> xs = []"
  by (cases xs) auto

lemma fetchone_mem: "fetchone xs = Some x \<Longrightarrow> x \<in> set xs"
  by (cases xs) auto

lemma select_id_mem:
  "i \<in> set (select_id s t name catalog) \<Longrightarrow>
     \<exists>r \<in> set (table t s). row_id r = i \<and> nocase_eq (row_name r) name \<and>
          (case catalog of None \<Rightarrow> True
           | Some cat \<Rightarrow> \<exists>c \<in> set (tbl_catalog s). row_catalog r = cat_id c \<and> nocase_eq (cat_name c) cat)"
  by (cases catalog) (auto simp: select_id_def)

subsection \<open>A failed lookup\<close>

text \<open>
  Claim C8. For every type (\<^verbatim>\<open>glass\<close> or \<^verbatim>\<open>lens\<close>), name and optional catalog name:
  when the table holds no row of that name (and, with a catalog name, of a catalog of
  that name; names compare without regard to case, as the columns collate),
  \<^verbatim>\<open>Library.get\<close> raises the \<^verbatim>\<open>KeyError\<close> "... not found" and leaves the library as it
  was. It never puts a default in the place of a record: whenever \<^verbatim>\<open>get\<close> returns an
  object, the table holds a matching row, and the object is what \<^verbatim>\<open>parse\<close> gives for
  the id of that row.
\<close>

theorem get_not_found:
  "(\<not> (\<exists>r \<in> set (table t (db L)). nocase_eq (row_name r) name \<and>
          (case catalog of None \<Rightarrow> True
           | Some cat \<Rightarrow> \<exists>c \<in> set (tbl_catalog (db L)).
                         row_catalog r = cat_id c \<and> nocase_eq (cat_name c) cat))
     \<longrightarrow> get M t name catalog reload L = (Inl (not_found t catalog name), L))
   \<and> (\<forall>obj L'. get M t name catalog reload L = (Inr obj, L') \<longrightarrow>
        (\<exists>r \<in> set (table t (db L)). nocase_eq (row_name r) name \<and>
          (case catalog of None \<Rightarrow> True
           | Some cat \<Rightarrow> \<exists>c \<in> set (tbl_catalog (db L)).
                         row_catalog r = cat_id c \<and> nocase_eq (cat_name c) cat)
          \<and> parse M t (row_id r) reload L = (Inr obj, L')))"
proof (intro conjI impI allI)
  assume "\<not> (\<exists>r \<in> set (table t (db L)). nocase_eq (row_name r) name \<and>
          (case catalog of None \<Rightarrow> True
           | Some cat \<Rightarrow> \<exists>c \<in> set (tbl_catalog (db L)).
                         row_catalog r = cat_id c \<and> nocase_eq (cat_name c) cat))"
  then have "select_id (db L) t name catalog = []"
    using select_id_empty [of "db L" t name catalog] by blast
  then show "get M t name catalog reload L = (Inl (not_found t catalog name), L)"
    by (simp add: get_def)
next
  fix obj L'
  assume g: "get M t name catalog reload L = (Inr obj, L')"
  then obtain i where i: "fetchone (select_id (db L) t name catalog) = Some i"
    and p: "parse M t i reload L = (Inr obj, L')"
    by (auto simp: get_def split: option.splits)
  from i have "i \<in> set (select_id (db L) t name catalog)" by (rule fetchone_mem)
  from select_id_mem [OF this] p
  show "\<exists>r \<in> set (table t (db L)). nocase_eq (row_name r) name \<and>
          (case catalog of None \<Rightarrow> True
           | Some cat \<Rightarrow> \<exists>c \<in> set (tbl_catalog (db L)).
                         row_catalog r = cat_id c \<and> nocase_eq (cat_name c) cat)
          \<and> parse M t (row_id r) reload L = (Inr obj, L')"
    by auto
qed

theorem get_not_found_witness:
  "get demo_modules Glass ''F2'' None False demo_library
     = (Inl (KeyError ''glass None/F2 not found''), demo_library)
   \<and> get demo_modules Lens ''BK7'' (Some ''schott'') True demo_library
     = (Inl (KeyError ''lens schott/BK7 not found''), demo_library)
   \<and> (\<exists>r \<in> set (tbl_glass (db demo_library)). nocase_eq (row_name r) ''bk7'' \<and>
         (\<exists>c \<in> set (tbl_catalog (db demo_library)). row_catalog r = cat_id c \<and> nocase_eq (cat_name c) ''Schott'')
         \<and> parse demo_modules Glass (row_id r) False demo_library
           = (Inr ''agf:NM BK7'', demo_library\<lparr>cache := [(Glass, 7) \<mapsto> ''agf:NM BK7'']\<rparr>))"
proof -
  have n1: "\<not> (\<exists>r \<in> set (table Glass (db demo_library)). nocase_eq (row_name r) ''F2'' \<and>
          (case None :: string option of None \<Rightarrow> True
           | Some cat \<Rightarrow> \<exists>c \<in> set (tbl_catalog (db demo_library)).
                         row_catalog r = cat_id c \<and> nocase_eq (cat_name c) cat))"
    by (simp add: demo_library_def nocase_eq_def lower_strs)
  have n2: "\<not> (\<exists>r \<in> set (table Lens (db demo_library)). nocase_eq (row_name r) ''BK7'' \<and>
          (case Some ''schott'' of None \<Rightarrow> True
           | Some cat \<Rightarrow> \<exists>c \<in> set (tbl_catalog (db demo_library)).
                         row_catalog r = cat_id c \<and> nocase_eq (cat_name c) cat))"
    by (simp add: demo_library_def)
  have s: "fetchone (select_id (db demo_library) Glass ''bk7'' (Some ''Schott'')) = Some 7"
    by (simp add: select_id_def demo_library_def nocase_eq_def lower_strs)
  have p: "parse demo_modules Glass 7 False demo_library
     = (Inr ''agf:NM BK7'', demo_library\<lparr>cache := [(Glass, 7) \<mapsto> ''agf:NM BK7'']\<rparr>)"
    by (simp add: parse_def demo_library_def select_data_format_def parsers_def
        demo_modules_def demo_parser_def)
  have g: "get demo_modules Glass ''bk7'' (Some ''Schott'') False demo_library
     = (Inr ''agf:NM BK7'', demo_library\<lparr>cache := [(Glass, 7) \<mapsto> ''agf:NM BK7'']\<rparr>)"
    unfolding get_def s by (simp add: p)
  from get_not_found [of Glass demo_library "''F2''" None demo_modules False] n1
  have a: "get demo_modules Glass ''F2'' None False demo_library
     = (Inl (KeyError ''glass None/F2 not found''), demo_library)"
    by (simp add: not_found_def)
  from get_not_found [of Lens demo_library "''BK7''" "Some ''schott''" demo_modules True] n2
  have b: "get demo_modules Lens ''BK7'' (Some ''schott'') True demo_library
     = (Inl (KeyError ''lens schott/BK7 not found''), demo_library)"
    by (simp add: not_found_def)
  from get_not_found [of Glass demo_library "''bk7''" "Some ''Schott''" demo_modules False] g
  have c: "\<exists>r \<in> set (tbl_glass (db demo_library)). nocase_eq (row_name r) ''bk7'' \<and>
         (\<exists>c \<in> set (tbl_catalog (db demo_library)). row_catalog r = cat_id c \<and> nocase_eq (cat_name c) ''Schott'')
         \<and> parse demo_modules Glass (row_id r) False demo_library
           = (Inr ''agf:NM BK7'', demo_library\<lparr>cache := [(Glass, 7) \<mapsto> ''agf:NM BK7'']\<rparr>)"
    by simp
  from a b c show ?thesis by blast
qed

subsection \<open>Refreshing a catalog\<close>

text \<open>
  \<^verbatim>\<open>delete_catalog\<close> leaves no catalog row of that id and no glass or lens of that
  catalog; it touches neither the cache nor the output.
\<close>

lemma delete_catalog_removes:
  "(\<forall>c \<in> set (tbl_catalog (db (delete_catalog i L))). cat_id c \<noteq> i)
   \<and> (\<forall>r \<in> set (tbl_glass (db (delete_catalog i L))). row_catalog r \<noteq> i)
   \<and> (\<forall>r \<in> set (tbl_lens (db (delete_catalog i L))). row_catalog r \<noteq> i)
   \<and> cache (delete_catalog i L) = cache L \<and> stdout (delete_catalog i L) = stdout L"
  by (simp add: delete_catalog_def)

text \<open>
  Claim C9, as the code has it. A file whose extension, in lower case, is not a key of
  \<^verbatim>\<open>loaders\<close> is skipped in every mode: \<^verbatim>\<open>load\<close> returns and the library is as it was.
  Under mode \<^verbatim>\<open>refresh\<close>, for a file with a loader, a catalog record and a readable
  status: \<^verbatim>\<open>load\<close> deletes the old catalog and runs the loader exactly when the file's
  modification time is later than the stored date and its size differs from the stored
  size (a stored \<^verbatim>\<open>NULL\<close> counts as earlier, and as different); otherwise it returns
  and the library is as it was.
\<close>

theorem load_refresh:
  "(loaders M (lower (splitext_ext (basename fil))) = None \<longrightarrow>
      load M fs fil mode L = (None, L))
   \<and> (loaders M (lower (splitext_ext (basename fil))) = Some ld
        \<and> fetchone (select_catalog_by_file (db L) fil) = Some res
        \<and> fs fil = Some st \<longrightarrow>
      load M fs fil ''refresh'' L =
        (if (case cat_date res of None \<Rightarrow> True | Some d \<Rightarrow> d < st_mtime st)
            \<and> (case cat_size res of None \<Rightarrow> True | Some z \<Rightarrow> st_size st \<noteq> z)
         then run_loader ld fil (delete_catalog (cat_id res) L)
         else (None, L)))"
  by (auto simp: load_def unchanged_def split: option.splits)

theorem load_refresh_witness:
  "load demo_modules demo_fs ''catalog/notes.txt'' ''reload'' demo_library = (None, demo_library)
   \<and> load demo_modules (demo_fs(''catalog/schott.agf'' \<mapsto> \<lparr>st_mtime = 200, st_size = 12\<rparr>))
         ''catalog/schott.agf'' ''refresh'' demo_library
       = run_loader (agf_to_library demo_modules) ''catalog/schott.agf'' (delete_catalog 1 demo_library)"
proof -
  have e1: "loaders demo_modules (lower (splitext_ext (basename ''catalog/notes.txt''))) = None"
    by (simp add: loaders_def lower_strs splitext_ext_def)
  have e2: "loaders demo_modules (lower (splitext_ext (basename ''catalog/schott.agf'')))
              = Some (agf_to_library demo_modules)"
    by (simp add: loaders_def lower_strs splitext_ext_def)
  have r: "fetchone (select_catalog_by_file (db demo_library) ''catalog/schott.agf'')
     = Some \<lparr>cat_id = 1, cat_name = ''schott'', cat_format = ''agf'', cat_size = Some 10,
          cat_file = Some ''catalog/schott.agf'', cat_date = Some 100\<rparr>"
    by (simp add: demo_library_def select_catalog_by_file_def)
  have f: "(demo_fs(''catalog/schott.agf'' \<mapsto> \<lparr>st_mtime = 200, st_size = 12\<rparr>)) ''catalog/schott.agf''
       = Some \<lparr>st_mtime = 200, st_size = 12\<rparr>"
    by simp
  from load_refresh [of demo_modules "''catalog/notes.txt''" _ "''reload''" demo_library] e1
  have a: "load demo_modules demo_fs ''catalog/notes.txt'' ''reload'' demo_library = (None, demo_library)"
    by blast
  from load_refresh [of demo_modules "''catalog/schott.agf''"
      "demo_fs(''catalog/schott.agf'' \<mapsto> \<lparr>st_mtime = 200, st_size = 12\<rparr>)" _ demo_library
      "agf_to_library demo_modules" _ "\<lparr>st_mtime = 200, st_size = 12\<rparr>"] e2 r f
  have b: "load demo_modules (demo_fs(''catalog/schott.agf'' \<mapsto> \<lparr>st_mtime = 200, st_size = 12\<rparr>))
         ''catalog/schott.agf'' ''refresh'' demo_library
       = run_loader (agf_to_library demo_modules) ''catalog/schott.agf'' (delete_catalog 1 demo_library)"
    by simp
  from a b show ?thesis by blast
qed

text \<open>
  Claim C9 as it is worded, with "newer modification time or different size", fails:
  the file of the example library now has modification time 200 against the stored
  date 100, and its size is the stored size 10. It is newer, and \<^verbatim>\<open>load\<close> under
  \<^verbatim>\<open>refresh\<close> returns without deleting or loading anything.
\<close>

theorem load_refresh_counterexample:
  "fetchone (select_catalog_by_file (db demo_library) ''catalog/schott.agf'')
     = Some \<lparr>cat_id = 1, cat_name = ''schott'', cat_format = ''agf'', cat_size = Some 10,
          cat_file = Some ''catalog/schott.agf'', cat_date = Some 100\<rparr>
   \<and> demo_fs ''catalog/schott.agf'' = Some \<lparr>st_mtime = 200, st_size = 10\<rparr>
   \<and> (100 :: real) < 200
   \<and> load demo_modules demo_fs ''catalog/schott.agf'' ''refresh'' demo_library
       = (None, demo_library)
   \<and> run_loader (agf_to_library demo_modules) ''catalog/schott.agf'' (delete_catalog 1 demo_library)
       \<noteq> (None, demo_library)"
proof -
  have e: "loaders demo_modules (lower (splitext_ext (basename ''catalog/schott.agf'')))
              = Some (agf_to_library demo_modules)"
    by (simp add: loaders_def lower_strs splitext_ext_def)
  have r: "fetchone (select_catalog_by_file (db demo_library) ''catalog/schott.agf'')
     = Some \<lparr>cat_id = 1, cat_name = ''schott'', cat_format = ''agf'', cat_size = Some 10,
          cat_file = Some ''catalog/schott.agf'', cat_date = Some 100\<rparr>"
    by (simp add: demo_library_def select_catalog_by_file_def)
  have f: "demo_fs ''catalog/schott.agf'' = Some \<lparr>st_mtime = 200, st_size = 10\<rparr>"
    by (simp add: demo_fs_def)
  have l: "load demo_modules demo_fs ''catalog/schott.agf'' ''refresh'' demo_library
       = (None, demo_library)"
    unfolding load_def Let_def e r f by (simp add: unchanged_def)
  have n: "run_loader (agf_to_library demo_modules) ''catalog/schott.agf'' (delete_catalog 1 demo_library)
       \<noteq> (None, demo_library)"
    by (simp add: run_loader_def demo_modules_def demo_loader_def demo_library_def delete_catalog_def)
  from r f l n show ?thesis by simp
qed

subsection \<open>The cache of parsed objects\<close>

lemma parse_hit: "cache L (t, i) = Some obj \<Longrightarrow> parse M t i False L = (Inr obj, L)"
  by (simp add: parse_def)

lemma parse_stores: "parse M t i reload L = (Inr obj, L1) \<Longrightarrow> cache L1 (t, i) = Some obj"
  by (auto simp: parse_def split: if_splits option.splits prod.splits sum.splits)

lemma parse_keeps:
  "cache L k = Some obj \<Longrightarrow> parse M t i False L = (r, L1) \<Longrightarrow> cache L1 k = Some obj"
  by (auto simp: parse_def split: if_splits option.splits prod.splits sum.splits)

lemma do_call_keeps:
  "cache L k = Some obj \<Longrightarrow> do_call M c L = (r, L1) \<Longrightarrow> cache L1 k = Some obj"
  by (cases c) (auto simp: get_def dest: parse_keeps split: option.splits)

lemma do_call_hit:
  "cache L (t, i) = Some obj \<Longrightarrow> resolves (db L, c) t i \<Longrightarrow> do_call M c L = (Inr obj, L)"
  by (cases c) (auto simp: get_def parse_hit)

lemma later_calls_hit:
  "cache L (t, i) = Some obj \<Longrightarrow>
   list_all2 (\<lambda>sc r. resolves sc t i \<longrightarrow> r = Inr obj) cs (later_calls M cs L)"
proof (induction cs arbitrary: L)
  case Nil
  then show ?case by simp
next
  case (Cons x cs)
  obtain s c where x: "x = (s, c)" by (cases x)
  obtain r L' where d: "do_call M c (L\<lparr>db := s\<rparr>) = (r, L')"
    by (cases "do_call M c (L\<lparr>db := s\<rparr>)")
  from Cons.prems have c0: "cache (L\<lparr>db := s\<rparr>) (t, i) = Some obj" by simp
  from do_call_keeps [OF c0 d] have "cache L' (t, i) = Some obj" .
  from Cons.IH [OF this]
  have rest: "list_all2 (\<lambda>sc r. resolves sc t i \<longrightarrow> r = Inr obj) cs (later_calls M cs L')" .
  have first: "resolves (s, c) t i \<Longrightarrow> r = Inr obj"
    using do_call_hit [OF c0, of c M] d by simp
  from rest first show ?case by (simp add: x d)
qed

text \<open>
  Claim C10. After a successful \<^verbatim>\<open>parse\<close> of \<open>(t, i)\<close> that gave \<open>obj\<close>, take any history
  of later \<^verbatim>\<open>parse\<close> and \<^verbatim>\<open>get\<close> calls with \<^verbatim>\<open>reload\<close> left false, the database changing
  in any way before each of them. Every call has a result, and each call about
  \<open>(t, i)\<close> returns \<open>obj\<close> again, whatever the database then holds and whatever the
  parsers would make of it.
\<close>

theorem parse_cached:
  "parse M t i reload L = (Inr obj, L1) \<Longrightarrow>
   list_all2 (\<lambda>sc r. resolves sc t i \<longrightarrow> r = Inr obj) cs (later_calls M' cs L1)"
proof -
  assume "parse M t i reload L = (Inr obj, L1)"
  then have "cache L1 (t, i) = Some obj" by (rule parse_stores)
  then show ?thesis by (rule later_calls_hit)
qed

theorem parse_cached_witness:
  "parse demo_modules Glass 7 False demo_library
     = (Inr ''agf:NM BK7'', demo_library\<lparr>cache := [(Glass, 7) \<mapsto> ''agf:NM BK7'']\<rparr>)
   \<and> later_calls demo_modules
        [(demo_store2, Parse Glass 7), (demo_store2, Get Glass ''bk7'' None),
         (\<lparr>tbl_catalog = [], tbl_glass = [], tbl_lens = []\<rparr>, Parse Glass 7)]
        (demo_library\<lparr>cache := [(Glass, 7) \<mapsto> ''agf:NM BK7'']\<rparr>)
     = [Inr ''agf:NM BK7'', Inr ''agf:NM BK7'', Inr ''agf:NM BK7'']"
proof -
  have p: "parse demo_modules Glass 7 False demo_library
     = (Inr ''agf:NM BK7'', demo_library\<lparr>cache := [(Glass, 7) \<mapsto> ''agf:NM BK7'']\<rparr>)"
    by (simp add: parse_def demo_library_def select_data_format_def parsers_def
        demo_modules_def demo_parser_def)
  have s: "resolves (demo_store2, Get Glass ''bk7'' None) Glass 7"
    by (simp add: select_id_def demo_store2_def nocase_eq_def lower_strs)
  define rs where "rs = later_calls demo_modules
        [(demo_store2, Parse Glass 7), (demo_store2, Get Glass ''bk7'' None),
         (\<lparr>tbl_catalog = [], tbl_glass = [], tbl_lens = []\<rparr>, Parse Glass 7)]
        (demo_library\<lparr>cache := [(Glass, 7) \<mapsto> ''agf:NM BK7'']\<rparr>)"
  from parse_cached [OF p, of "[(demo_store2, Parse Glass 7), (demo_store2, Get Glass ''bk7'' None),
         (\<lparr>tbl_catalog = [], tbl_glass = [], tbl_lens = []\<rparr>, Parse Glass 7)]" demo_modules]
  have "list_all2 (\<lambda>sc r. resolves sc Glass 7 \<longrightarrow> r = Inr ''agf:NM BK7'')
          [(demo_store2, Parse Glass 7), (demo_store2, Get Glass ''bk7'' None),
           (\<lparr>tbl_catalog = [], tbl_glass = [], tbl_lens = []\<rparr>, Parse Glass 7)] rs"
    unfolding rs_def .
  then obtain a b c where abc: "rs = [a, b, c]"
    and a: "resolves (demo_store2, Parse Glass 7) Glass 7 \<longrightarrow> a = Inr ''agf:NM BK7''"
    and b: "resolves (demo_store2, Get Glass ''bk7'' None) Glass 7 \<longrightarrow> b = Inr ''agf:NM BK7''"
    and c: "resolves (\<lparr>tbl_catalog = [], tbl_glass = [], tbl_lens = []\<rparr>, Parse Glass 7) Glass 7
              \<longrightarrow> c = Inr ''agf:NM BK7''"
    by (auto simp only: list_all2_Cons1 list_all2_Nil)
  from a have "a = Inr ''agf:NM BK7''" by simp
  moreover from b s have "b = Inr ''agf:NM BK7''" by blast
  moreover from c have "c = Inr ''agf:NM BK7''" by simp
  ultimately have "rs = [Inr ''agf:NM BK7'', Inr ''agf:NM BK7'', Inr ''agf:NM BK7'']"
    using abc by simp
  with p show ?thesis unfolding rs_def by blast
qed

section \<open>Properties of the surface model\<close>

subsection \<open>Matrix algebra\<close>

lemma mat3_cases:
  obtains a b c d e f g h i where "(A :: mat3) = ((a, b, c), (d, e, f), (g, h, i))"
  by (cases A) auto

lemma mv_mm: "mv (mm A B) x = mv A (mv B x)"
  by (cases A rule: mat3_cases, cases B rule: mat3_cases, cases x) (simp add: algebra_simps)

lemma mv_identity3: "mv identity3 x = x"
  by (cases x) (simp add: identity3_def)













subsection \<open>Frame transforms\<close>

text \<open>
  The two scenarios of \<^verbatim>\<open>TransformCase.test_rot\<close> (Section 8): without tilt, a
  realignment that takes the default axis onto the direction takes \<open>(0, 0, 3)\<close> to
  three times the direction; with the default axis and the tilt \<open>(a, 0, 0)\<close>,
  \<open>(0, 0, 3)\<close> goes to \<open>(0, 3 sin a, 3 cos a)\<close>.
\<close>

lemma mv_scale: "mv R (scale k x) = scale k (mv R x)"
  by (cases R rule: mat3_cases, cases x) (simp add: algebra_simps)

lemma from_normal_untilted:
  "angles s = None \<Longrightarrow> mv (realign A (direction s)) (0, 0, 1) = direction s \<Longrightarrow>
   from_normal A s (0, 0, 3) = scale 3 (direction s)"
proof -
  assume a: "angles s = None" and m: "mv (realign A (direction s)) (0, 0, 1) = direction s"
  have "from_normal A s (0, 0, 3) = mv (realign A (direction s)) (scale 3 (0, 0, 1))"
    using a by (simp add: from_normal_def rotation_def tilt_def mv_mm mv_identity3)
  also have "\<dots> = scale 3 (direction s)"
    by (simp only: mv_scale m)
  finally show ?thesis .
qed

lemma from_normal_tilt_x:
  "direction s = (0, 0, 1) \<Longrightarrow> angles s = Some (a, 0, 0) \<Longrightarrow>
   from_normal A s (0, 0, 3) = (0, 3 * sin a, 3 * cos a)"
  by (simp add: from_normal_def rotation_def realign_def tilt_def rot_x_def rot_y_def rot_z_def
      identity3_def)

text \<open>
  The example realignment takes the default axis onto every unit direction, and is a
  rotation there.
\<close>

lemma shortest_turn_axis:
  assumes u: "p * p + q * q + r * r = (1::real)"
  shows "mv (shortest_turn (p, q, r)) (0, 0, 1) = (p, q, r)"
proof (cases "r = - 1")
  case True
  with u have "p * p + q * q = 0" by simp
  then have "p = 0 \<and> q = 0" by (simp add: sum_squares_eq_zero_iff)
  with True show ?thesis by (simp add: shortest_turn_def)
next
  case False
  then show ?thesis by (simp add: shortest_turn_def)
qed





end
